theory Spec2Isabelle
  imports Main "HOL-Library.Word"
begin

section \<open>Data model of wechat/param.go\<close>

text \<open>
  The credential and signing core of the WeChat client (\<^verbatim>\<open>src/wechat/param.go\<close>).
  Go values are modelled as the code has them:
  \<^item> a byte slice is a list of bytes, or the nil slice;
  \<^item> an \<^verbatim>\<open>interface{}\<close> argument is nil, a string, a byte slice, or a value of some other
    dynamic type;
  \<^item> an \<^verbatim>\<open>error\<close> is built by \<^verbatim>\<open>errors.New\<close> / \<^verbatim>\<open>fmt.Errorf\<close> without a cause, or by
    \<^verbatim>\<open>fmt.Errorf("...%w", err)\<close> around a cause;
  \<^item> a function returning \<^verbatim>\<open>(x, err)\<close> returns a pair whose second component is
    \<open>None\<close> for the nil error;
  \<^item> a failed type assertion, a nil dereference and an index out of range panic.
\<close>

type_synonym byte = "8 word"

text \<open>A Go \<^verbatim>\<open>[]byte\<close>: \<open>None\<close> is the nil slice, \<open>Some []\<close> an empty slice that is not nil.\<close>

type_synonym go_bytes = "byte list option"

definition len :: "go_bytes \<Rightarrow> nat" where
  "len b = (case b of None \<Rightarrow> 0 | Some xs \<Rightarrow> length xs)"

text \<open>
  \<^verbatim>\<open>append(s, t...)\<close>: appending no element returns \<open>s\<close> itself (nil stays nil);
  appending at least one element gives a slice that is not nil.
\<close>

definition append_bytes :: "go_bytes \<Rightarrow> go_bytes \<Rightarrow> go_bytes" where
  "append_bytes s t =
     (case t of
        None \<Rightarrow> s
      | Some [] \<Rightarrow> s
      | Some (y # ys) \<Rightarrow> Some ((case s of None \<Rightarrow> [] | Some xs \<Rightarrow> xs) @ y # ys))"

datatype iface = INil | IString string | IBytes go_bytes | IOther

datatype error = ErrorsNew string | ErrorfW string error

text \<open>\<^verbatim>\<open>err.Error()\<close> and \<^verbatim>\<open>errors.Unwrap(err)\<close>.\<close>

fun Error :: "error \<Rightarrow> string" where
  "Error (ErrorsNew msg) = msg"
| "Error (ErrorfW prefix cause) = prefix @ Error cause"

fun Unwrap :: "error \<Rightarrow> error option" where
  "Unwrap (ErrorsNew msg) = None"
| "Unwrap (ErrorfW prefix cause) = Some cause"

datatype 'a go_result = Panics | Returns 'a

text \<open>\<^verbatim>\<open>gotil.NULL\<close>, the empty string.\<close>

definition NULL :: string where
  "NULL = []"

text \<open>
  The colon of the messages \<^verbatim>\<open>"ioutil.ReadFile:%w"\<close>, \<^verbatim>\<open>"pkcs12.ToPEM:%w"\<close> and
  \<^verbatim>\<open>"tls.LoadX509KeyPair:%w"\<close> is the full-width colon U+FF1A, three bytes in UTF-8.
\<close>

definition fullwidth_colon :: string where
  "fullwidth_colon = [CHR 0xEF, CHR 0xBC, CHR 0x9A]"

section \<open>checkCertFilePath\<close>

text \<open>
  The loop of \<^verbatim>\<open>checkCertFilePath\<close> ranges over a Go map of two entries, which the
  runtime visits in either order; the order is an input of the model.
\<close>

datatype iter_order = CertFirst | KeyFirst

definition files :: "iter_order \<Rightarrow> iface \<Rightarrow> iface \<Rightarrow> (string \<times> iface) list" where
  "files ord certFilePath keyFilePath =
     (case ord of
        CertFirst \<Rightarrow> [(''certFilePath'', certFilePath), (''keyFilePath'', keyFilePath)]
      | KeyFirst \<Rightarrow> [(''keyFilePath'', keyFilePath), (''certFilePath'', certFilePath)])"

text \<open>The type switch of the loop body (lines 153--164): \<open>Some\<close> is the error returned.\<close>

fun checkEntry :: "string \<Rightarrow> iface \<Rightarrow> error option" where
  "checkEntry varName (IString s) =
     (if s = NULL then Some (ErrorsNew (varName @ '' is empty'')) else None)"
| "checkEntry varName (IBytes b) =
     (if len b = 0 then Some (ErrorsNew (varName @ '' is empty'')) else None)"
| "checkEntry varName v = Some (ErrorsNew (varName @ '' type error''))"

text \<open>The \<^verbatim>\<open>for varName, v := range files\<close> loop: the first error ends it.\<close>

fun rangeFiles :: "(string \<times> iface) list \<Rightarrow> error option" where
  "rangeFiles [] = None"
| "rangeFiles ((varName, v) # rest) =
     (case checkEntry varName v of Some e \<Rightarrow> Some e | None \<Rightarrow> rangeFiles rest)"

text \<open>The type switch on the PKCS#12 argument (lines 168--180).\<close>

fun checkPkcs12 :: "iface \<Rightarrow> error option" where
  "checkPkcs12 (IString s) =
     (if s = NULL then Some (ErrorsNew ''pkcs12FilePath is empty'') else None)"
| "checkPkcs12 (IBytes b) =
     (if len b = 0 then Some (ErrorsNew ''pkcs12FilePath is empty'') else None)"
| "checkPkcs12 v = Some (ErrorsNew ''pkcs12FilePath type error'')"

definition checkCertFilePath ::
  "iter_order \<Rightarrow> iface \<Rightarrow> iface \<Rightarrow> iface \<Rightarrow> error option" where
  "checkCertFilePath ord certFilePath keyFilePath pkcs12FilePath =
     (if certFilePath = INil \<and> keyFilePath = INil \<and> pkcs12FilePath = INil then None
      else if certFilePath \<noteq> INil \<and> keyFilePath \<noteq> INil
        then rangeFiles (files ord certFilePath keyFilePath)
      else if pkcs12FilePath \<noteq> INil then checkPkcs12 pkcs12FilePath
      else Some (ErrorsNew ''certFilePath keyFilePath must all nil or all not nil''))"

section \<open>addCertConfig and AddCertFilePath\<close>

text \<open>
  The file system and the certificate libraries are outside this file; the model takes
  them as an environment: \<^verbatim>\<open>ioutil.ReadFile\<close>, \<^verbatim>\<open>pkcs12.ToPEM\<close>,
  \<^verbatim>\<open>pem.EncodeToMemory\<close> and \<^verbatim>\<open>tls.X509KeyPair\<close>, each returning what the Go function
  returns. \<open>'c\<close> is \<^verbatim>\<open>tls.Certificate\<close>.
\<close>

record pem_Block =
  block_Type :: string
  block_Headers :: "(string \<times> string) list"
  block_Bytes :: "byte list"

record 'c cert_env =
  ReadFile :: "string \<Rightarrow> go_bytes \<times> error option"
  ToPEM :: "go_bytes \<Rightarrow> string \<Rightarrow> pem_Block list \<times> error option"
  EncodeToMemory :: "pem_Block \<Rightarrow> go_bytes"
  X509KeyPair :: "go_bytes \<Rightarrow> go_bytes \<Rightarrow> 'c \<times> error option"

record 'c tls_Config =
  Certificates :: "'c list"
  InsecureSkipVerify :: bool

text \<open>The fields of \<^verbatim>\<open>Client\<close> this file reads and writes; the lock is not modelled.\<close>

record 'c Client =
  MchId :: string
  certificate :: "'c option"

text \<open>
  Lines 102--106 and 107--111: a byte slice is used as it is and leaves \<^verbatim>\<open>err\<close> as it
  was; anything else is asserted to be a string and read from disk, which assigns
  \<^verbatim>\<open>err\<close> anew.
\<close>

definition readPemInput ::
  "'c cert_env \<Rightarrow> iface \<Rightarrow> error option \<Rightarrow> (go_bytes \<times> error option) go_result" where
  "readPemInput env file err =
     (case file of
        IBytes b \<Rightarrow> Returns (b, err)
      | IString path \<Rightarrow> Returns (ReadFile env path)
      | INil \<Rightarrow> Panics
      | IOther \<Rightarrow> Panics)"

text \<open>Lines 116--123: the PKCS#12 archive, as bytes or read from its path.\<close>

definition readPfx :: "'c cert_env \<Rightarrow> iface \<Rightarrow> (go_bytes \<times> error option) go_result" where
  "readPfx env pkcs12File =
     (case pkcs12File of
        IBytes b \<Rightarrow> Returns (b, None)
      | IString path \<Rightarrow> Returns (ReadFile env path)
      | INil \<Rightarrow> Panics
      | IOther \<Rightarrow> Panics)"

text \<open>Lines 128--130: \<^verbatim>\<open>keyPem = append(keyPem, pem.EncodeToMemory(b)...)\<close> for each block.\<close>

fun encodeBlocks :: "'c cert_env \<Rightarrow> go_bytes \<Rightarrow> pem_Block list \<Rightarrow> go_bytes" where
  "encodeBlocks env keyPem [] = keyPem"
| "encodeBlocks env keyPem (b # blocks) =
     encodeBlocks env (append_bytes keyPem (EncodeToMemory env b)) blocks"

text \<open>Lines 133--143: the key pair is parsed when both PEM slices are not nil.\<close>

definition keyPairConfig ::
  "'c cert_env \<Rightarrow> go_bytes \<Rightarrow> go_bytes \<Rightarrow> 'c tls_Config option \<times> error option" where
  "keyPairConfig env certPem keyPem =
     (if certPem \<noteq> None \<and> keyPem \<noteq> None then
        (case X509KeyPair env certPem keyPem of
           (cert, Some err) \<Rightarrow>
             (None, Some (ErrorfW (''tls.LoadX509KeyPair'' @ fullwidth_colon) err))
         | (cert, None) \<Rightarrow>
             (Some \<lparr>Certificates = [cert], InsecureSkipVerify = True\<rparr>, None))
      else (None, Some (ErrorsNew ''cert files must all nil or all not nil'')))"

text \<open>Lines 97--143: what \<^verbatim>\<open>addCertConfig\<close> does when it does not return the cached credential.\<close>

definition loadCertConfig ::
  "'c cert_env \<Rightarrow> 'c Client \<Rightarrow> iface \<Rightarrow> iface \<Rightarrow> iface \<Rightarrow>
   ('c tls_Config option \<times> error option) go_result" where
  "loadCertConfig env w certFile keyFile pkcs12File =
     (if certFile \<noteq> INil \<and> keyFile \<noteq> INil then
        (case readPemInput env certFile None of
           Panics \<Rightarrow> Panics
         | Returns (certPem, err) \<Rightarrow>
             (case readPemInput env keyFile err of
                Panics \<Rightarrow> Panics
              | Returns (keyPem, Some e) \<Rightarrow>
                  Returns (None, Some (ErrorfW (''ioutil.ReadFile'' @ fullwidth_colon) e))
              | Returns (keyPem, None) \<Rightarrow> Returns (keyPairConfig env certPem keyPem)))
      else if pkcs12File \<noteq> INil then
        (case readPfx env pkcs12File of
           Panics \<Rightarrow> Panics
         | Returns (pfxData, Some e) \<Rightarrow>
             Returns (None, Some (ErrorfW (''ioutil.ReadFile'' @ fullwidth_colon) e))
         | Returns (pfxData, None) \<Rightarrow>
             (case ToPEM env pfxData (MchId w) of
                (blocks, Some e) \<Rightarrow>
                  Returns (None, Some (ErrorfW (''pkcs12.ToPEM'' @ fullwidth_colon) e))
              | (blocks, None) \<Rightarrow>
                  (let keyPem = encodeBlocks env None blocks;
                       certPem = keyPem
                   in Returns (keyPairConfig env certPem keyPem))))
      else Returns (keyPairConfig env None None))"

definition addCertConfig ::
  "'c cert_env \<Rightarrow> 'c Client \<Rightarrow> iface \<Rightarrow> iface \<Rightarrow> iface \<Rightarrow>
   ('c tls_Config option \<times> error option) go_result" where
  "addCertConfig env w certFile keyFile pkcs12File =
     (if certFile = INil \<and> keyFile = INil \<and> pkcs12File = INil then
        (case certificate w of
           Some cached \<Rightarrow>
             Returns (Some \<lparr>Certificates = [cached], InsecureSkipVerify = True\<rparr>, None)
         | None \<Rightarrow> loadCertConfig env w certFile keyFile pkcs12File)
      else loadCertConfig env w certFile keyFile pkcs12File)"

text \<open>
  \<^verbatim>\<open>AddCertFilePath\<close> returns its error and the client as it leaves it: the credential is
  stored only after both the check and the loader returned no error.
\<close>

definition AddCertFilePath ::
  "'c cert_env \<Rightarrow> iter_order \<Rightarrow> 'c Client \<Rightarrow> iface \<Rightarrow> iface \<Rightarrow> iface \<Rightarrow>
   (error option \<times> 'c Client) go_result" where
  "AddCertFilePath env ord w certFilePath keyFilePath pkcs12FilePath =
     (case checkCertFilePath ord certFilePath keyFilePath pkcs12FilePath of
        Some err \<Rightarrow> Returns (Some err, w)
      | None \<Rightarrow>
          (case addCertConfig env w certFilePath keyFilePath pkcs12FilePath of
             Panics \<Rightarrow> Panics
           | Returns (config, Some err) \<Rightarrow> Returns (Some err, w)
           | Returns (None, None) \<Rightarrow> Panics
           | Returns (Some config, None) \<Rightarrow>
               (case Certificates config of
                  [] \<Rightarrow> Panics
                | c # cs \<Rightarrow> Returns (None, w\<lparr>certificate := Some c\<rparr>))))"

text \<open>The three wrappers pass byte slices, which are never the nil interface.\<close>

definition AddCertFileContent ::
  "'c cert_env \<Rightarrow> iter_order \<Rightarrow> 'c Client \<Rightarrow> go_bytes \<Rightarrow> go_bytes \<Rightarrow> go_bytes \<Rightarrow>
   (error option \<times> 'c Client) go_result" where
  "AddCertFileContent env ord w certFileContent keyFileContent pkcs12FileContent =
     AddCertFilePath env ord w
       (IBytes certFileContent) (IBytes keyFileContent) (IBytes pkcs12FileContent)"

definition AddCertPemFileContent ::
  "'c cert_env \<Rightarrow> iter_order \<Rightarrow> 'c Client \<Rightarrow> go_bytes \<Rightarrow> go_bytes \<Rightarrow>
   (error option \<times> 'c Client) go_result" where
  "AddCertPemFileContent env ord w certFileContent keyFileContent =
     AddCertFilePath env ord w (IBytes certFileContent) (IBytes keyFileContent) INil"

definition AddCertPkcs12FileContent ::
  "'c cert_env \<Rightarrow> iter_order \<Rightarrow> 'c Client \<Rightarrow> go_bytes \<Rightarrow>
   (error option \<times> 'c Client) go_result" where
  "AddCertPkcs12FileContent env ord w pkcs12FileContent =
     AddCertFilePath env ord w INil INil (IBytes pkcs12FileContent)"

section \<open>The signature engine and the sandbox key exchange\<close>

unbundle bit_operations_syntax

text \<open>
  Modelled from the spec: the constants \<^verbatim>\<open>SignType_MD5\<close> and \<^verbatim>\<open>SignType_HMAC_SHA256\<close> are
  declared outside \<^verbatim>\<open>param.go\<close>; the spec names the two variants MD5 and HMAC-SHA256.
\<close>

definition SignType_MD5 :: string where
  "SignType_MD5 = ''MD5''"

definition SignType_HMAC_SHA256 :: string where
  "SignType_HMAC_SHA256 = ''HMAC-SHA256''"

text \<open>
  Modelled from the spec: \<^verbatim>\<open>gopay.BodyMap\<close> is declared outside \<^verbatim>\<open>param.go\<close>; the spec's
  ParameterSet is a mapping from parameter name to string value, and \<^verbatim>\<open>Set\<close> stores a
  value under a name.
\<close>

type_synonym BodyMap = "string \<rightharpoonup> string"

definition Set_bm :: "BodyMap \<Rightarrow> string \<Rightarrow> string \<Rightarrow> BodyMap" where
  "Set_bm bm key val = bm(key \<mapsto> val)"

text \<open>
  Modelled from the spec: \<^verbatim>\<open>getSignKeyResponse\<close> is declared outside \<^verbatim>\<open>param.go\<close>; the spec's
  RemoteKeyResponse holds a status code, an error message and the derived key (the wire
  fields \<^verbatim>\<open>return_code\<close>, \<^verbatim>\<open>return_msg\<close>, \<^verbatim>\<open>sandbox_signkey\<close>).
\<close>

record getSignKeyResponse =
  ReturnCode :: string
  ReturnMsg :: string
  SandboxSignkey :: string

text \<open>
  \<^verbatim>\<open>hash.Hash\<close> as the code creates it: \<^verbatim>\<open>hmac.New(sha256.New, key)\<close> or \<^verbatim>\<open>md5.New()\<close>.
\<close>

datatype hash_Hash = HmacSha256 string | Md5

text \<open>A request the transport has sent: the URL and the body.\<close>

type_synonym request = "string \<times> string"

text \<open>
  What the signing code calls outside this file: the two digests, the canonical encoding
  of the parameters (\<^verbatim>\<open>BodyMap.EncodeWeChatSignParams\<close>), \<^verbatim>\<open>xml.Marshal\<close>, the random
  nonce, the sandbox endpoint, and the transport. \<open>EndStruct\<close> is the whole call chain
  \<^verbatim>\<open>NewClient().Type(TypeXML).Post(url).SendString(body).EndStruct(keyResponse)\<close>: given the
  requests sent before, the URL and the body, it gives the errors and the decoded
  response.
\<close>

record sign_env =
  md5_Sum :: "string \<Rightarrow> byte list"
  hmac_sha256_Sum :: "string \<Rightarrow> string \<Rightarrow> byte list"
  EncodeWeChatSignParams :: "BodyMap \<Rightarrow> string \<Rightarrow> string"
  xml_Marshal :: "BodyMap \<Rightarrow> string \<times> error option"
  GetRandomString :: "nat \<Rightarrow> string"
  sandboxGetSignKey :: string
  EndStruct :: "request list \<Rightarrow> string \<Rightarrow> string \<Rightarrow> error list \<times> getSignKeyResponse"

text \<open>\<^verbatim>\<open>h.Write(data); h.Sum(nil)\<close>.\<close>

definition hash_Sum :: "sign_env \<Rightarrow> hash_Hash \<Rightarrow> string \<Rightarrow> byte list" where
  "hash_Sum env h data =
     (case h of
        HmacSha256 key \<Rightarrow> hmac_sha256_Sum env key data
      | Md5 \<Rightarrow> md5_Sum env data)"

text \<open>\<^verbatim>\<open>hex.EncodeToString\<close>: two lower-case digits for each byte, the high nibble first.\<close>

definition hextable :: string where
  "hextable = ''0123456789abcdef''"

fun EncodeToString :: "byte list \<Rightarrow> string" where
  "EncodeToString [] = []"
| "EncodeToString (v # src) =
     hextable ! unat (drop_bit 4 v) # hextable ! unat (v AND 0x0f) # EncodeToString src"

text \<open>
  \<^verbatim>\<open>strings.ToUpper\<close> on ASCII text, which is all the code gives it (the output of
  \<^verbatim>\<open>hex.EncodeToString\<close>): the letters a to z are mapped to A to Z.
\<close>

definition upperChar :: "char \<Rightarrow> char" where
  "upperChar c =
     (let n = (of_char c :: nat) in if 97 \<le> n \<and> n \<le> 122 then char_of (n - 32) else c)"

definition ToUpper :: "string \<Rightarrow> string" where
  "ToUpper s = map upperChar s"

text \<open>Lines 188--193 of \<^verbatim>\<open>getReleaseSign\<close>: the choice of the hash.\<close>

definition releaseHash :: "string \<Rightarrow> string \<Rightarrow> hash_Hash" where
  "releaseHash apiKey signType =
     (if signType = SignType_HMAC_SHA256 then HmacSha256 apiKey else Md5)"

definition getReleaseSign :: "sign_env \<Rightarrow> string \<Rightarrow> string \<Rightarrow> BodyMap \<Rightarrow> string" where
  "getReleaseSign env apiKey signType bm =
     (let h = releaseHash apiKey signType
      in ToUpper (EncodeToString (hash_Sum env h (EncodeWeChatSignParams env bm apiKey))))"

text \<open>\<^verbatim>\<open>generateXml\<close>: the marshalled text, or \<^verbatim>\<open>gotil.NULL\<close> when \<^verbatim>\<open>xml.Marshal\<close> fails.\<close>

definition generateXml :: "sign_env \<Rightarrow> BodyMap \<Rightarrow> string" where
  "generateXml env bm =
     (case xml_Marshal env bm of
        (bs, Some err) \<Rightarrow> NULL
      | (bs, None) \<Rightarrow> bs)"

text \<open>
  Lines 215--217 and 227--230: the parameters that are signed, and the parameters of the
  key request.
\<close>

definition keyParams :: "string \<Rightarrow> string \<Rightarrow> BodyMap" where
  "keyParams mchId nonceStr =
     Set_bm (Set_bm Map.empty ''mch_id'' mchId) ''nonce_str'' nonceStr"

definition keyRequest :: "string \<Rightarrow> string \<Rightarrow> string \<Rightarrow> BodyMap" where
  "keyRequest mchId nonceStr sign =
     Set_bm (Set_bm (Set_bm Map.empty ''mch_id'' mchId) ''nonce_str'' nonceStr) ''sign'' sign"

text \<open>Lines 234--240: what \<^verbatim>\<open>getSanBoxSignKey\<close> returns for the transport's answer.\<close>

definition keyResult :: "error list \<times> getSignKeyResponse \<Rightarrow> string \<times> error option" where
  "keyResult answer =
     (case answer of (errs, keyResponse) \<Rightarrow>
        if length errs > 0 then (NULL, Some (errs ! 0))
        else if ReturnCode keyResponse = ''FAIL''
          then (NULL, Some (ErrorsNew (ReturnMsg keyResponse)))
        else (SandboxSignkey keyResponse, None))"

text \<open>
  \<^verbatim>\<open>getSanBoxSignKey\<close> takes the requests sent so far and returns them with its own
  request added, beside the pair \<^verbatim>\<open>(key, err)\<close>.
\<close>

definition getSanBoxSignKey ::
  "sign_env \<Rightarrow> request list \<Rightarrow> string \<Rightarrow> string \<Rightarrow> string \<Rightarrow>
   (string \<times> error option) \<times> request list" where
  "getSanBoxSignKey env net mchId nonceStr sign =
     (let reqs = keyRequest mchId nonceStr sign;
          body = generateXml env reqs;
          answer = EndStruct env net (sandboxGetSignKey env) body
      in (keyResult answer, net @ [(sandboxGetSignKey env, body)]))"

definition getSanBoxKey ::
  "sign_env \<Rightarrow> request list \<Rightarrow> string \<Rightarrow> string \<Rightarrow> string \<Rightarrow> string \<Rightarrow>
   (string \<times> error option) \<times> request list" where
  "getSanBoxKey env net mchId nonceStr apiKey signType =
     (let bm = keyParams mchId nonceStr
      in getSanBoxSignKey env net mchId nonceStr (getReleaseSign env apiKey signType bm))"

definition getSignBoxSign ::
  "sign_env \<Rightarrow> request list \<Rightarrow> string \<Rightarrow> string \<Rightarrow> BodyMap \<Rightarrow>
   (string \<times> error option) \<times> request list" where
  "getSignBoxSign env net mchId apiKey bm =
     (case getSanBoxKey env net mchId (GetRandomString env 32) apiKey SignType_MD5 of
        ((sandBoxApiKey, Some err), net') \<Rightarrow> (([], Some err), net')
      | ((sandBoxApiKey, None), net') \<Rightarrow>
          ((ToUpper (EncodeToString
              (hash_Sum env Md5 (EncodeWeChatSignParams env bm sandBoxApiKey))), None), net'))"

section \<open>The error kinds of the specification\<close>



fun isIOError :: "error \<Rightarrow> bool" where
  "isIOError (ErrorfW prefix cause) = (prefix = ''ioutil.ReadFile'' @ fullwidth_colon)"
| "isIOError (ErrorsNew msg) = False"

text \<open>
  An input is provided when it is a string or a byte slice that is not empty; it is
  absent when it is the nil interface, and empty when it is the empty string or a byte
  slice of length 0.
\<close>

fun provided :: "iface \<Rightarrow> bool" where
  "provided (IString s) = (s \<noteq> NULL)"
| "provided (IBytes b) = (len b \<noteq> 0)"
| "provided v = False"


section \<open>Concrete environments\<close>

text \<open>
  A file system with three files, a PKCS#12 decoder that accepts one archive under the
  merchant id \<open>1900000109\<close>, and a key-pair parser that accepts every pair; a
  certificate is the pair of PEM texts it was parsed from.
\<close>

definition missing_file :: "string \<Rightarrow> error" where
  "missing_file path = ErrorsNew (''open '' @ path @ '': no such file or directory'')"

definition three_files :: "string \<Rightarrow> go_bytes \<times> error option" where
  "three_files path =
     (if path = ''cert.pem'' then (Some [0x01], None)
      else if path = ''key.pem'' then (Some [0x02], None)
      else if path = ''cert.p12'' then (Some [0x03], None)
      else (None, Some (missing_file path)))"

definition key_file_only :: "string \<Rightarrow> go_bytes \<times> error option" where
  "key_file_only path =
     (if path = ''key.pem'' then (Some [0x02], None)
      else (None, Some (missing_file path)))"

definition one_archive :: "go_bytes \<Rightarrow> string \<Rightarrow> pem_Block list \<times> error option" where
  "one_archive pfxData password =
     (if pfxData = Some [0x03] \<and> password = ''1900000109''
      then ([\<lparr>block_Type = ''CERTIFICATE'', block_Headers = [], block_Bytes = [0x04]\<rparr>,
             \<lparr>block_Type = ''PRIVATE KEY'', block_Headers = [], block_Bytes = [0x05]\<rparr>], None)
      else ([], Some (ErrorsNew ''pkcs12: decryption password incorrect'')))"

definition disk_env :: "(go_bytes \<times> go_bytes) cert_env" where
  "disk_env =
     \<lparr>ReadFile = three_files,
      ToPEM = one_archive,
      EncodeToMemory = (\<lambda>b. Some (block_Bytes b)),
      X509KeyPair = (\<lambda>certPEMBlock keyPEMBlock. ((certPEMBlock, keyPEMBlock), None))\<rparr>"

definition cert_missing_env :: "(go_bytes \<times> go_bytes) cert_env" where
  "cert_missing_env = disk_env\<lparr>ReadFile := key_file_only\<rparr>"

definition merchant :: "(go_bytes \<times> go_bytes) Client" where
  "merchant = \<lparr>MchId = ''1900000109'', certificate = None\<rparr>"

text \<open>
  A signing environment whose two digests differ in their first byte, whose encoder
  writes the merchant id and the nonce (a parameter with an empty value is left out) and
  then the key, whose \<^verbatim>\<open>xml.Marshal\<close> writes the three fields of the key request, and
  whose transport answers every request with a key.
\<close>

definition field :: "BodyMap \<Rightarrow> string \<Rightarrow> string" where
  "field bm key = (case bm key of None \<Rightarrow> [] | Some v \<Rightarrow> key @ ''='' @ v @ ''&'')"

definition signed_field :: "BodyMap \<Rightarrow> string \<Rightarrow> string" where
  "signed_field bm key =
     (case bm key of
        None \<Rightarrow> []
      | Some v \<Rightarrow> if v = NULL then [] else key @ ''='' @ v @ ''&'')"

definition answer_key :: "request list \<Rightarrow> string \<Rightarrow> string \<Rightarrow> error list \<times> getSignKeyResponse" where
  "answer_key net url body =
     ([], \<lparr>ReturnCode = ''SUCCESS'', ReturnMsg = ''ok'', SandboxSignkey = ''sandboxkey''\<rparr>)"

definition wire_env :: sign_env where
  "wire_env =
     \<lparr>md5_Sum = (\<lambda>data. [0x4d, 0x1f]),
      hmac_sha256_Sum = (\<lambda>key data. [0x48, 0x2e]),
      EncodeWeChatSignParams =
        (\<lambda>bm key. signed_field bm ''mch_id'' @ signed_field bm ''nonce_str'' @ ''key='' @ key),
      xml_Marshal =
        (\<lambda>bm. (field bm ''mch_id'' @ field bm ''nonce_str'' @ field bm ''sign'', None)),
      GetRandomString = (\<lambda>n. replicate n CHR ''x''),
      sandboxGetSignKey = ''https://sandbox/getsignkey'',
      EndStruct = answer_key\<rparr>"

definition answer_with ::
  "error list \<Rightarrow> getSignKeyResponse \<Rightarrow> request list \<Rightarrow> string \<Rightarrow> string \<Rightarrow>
   error list \<times> getSignKeyResponse" where
  "answer_with errs resp net url body = (errs, resp)"

text \<open>
  Three more transports: the provider reports a failure; the connection fails; the
  provider answers with every field empty.
\<close>

definition provider_fails_env :: sign_env where
  "provider_fails_env =
     wire_env\<lparr>EndStruct := answer_with []
       \<lparr>ReturnCode = ''FAIL'', ReturnMsg = ''invalid mch_id'', SandboxSignkey = []\<rparr>\<rparr>"

definition transport_fails_env :: sign_env where
  "transport_fails_env =
     wire_env\<lparr>EndStruct := answer_with [ErrorsNew ''dial tcp: i/o timeout'']
       \<lparr>ReturnCode = [], ReturnMsg = [], SandboxSignkey = []\<rparr>\<rparr>"

definition blank_answer_env :: sign_env where
  "blank_answer_env =
     wire_env\<lparr>EndStruct := answer_with []
       \<lparr>ReturnCode = [], ReturnMsg = [], SandboxSignkey = []\<rparr>\<rparr>"

text \<open>A client that has a credential cached.\<close>

definition registered_merchant :: "(go_bytes \<times> go_bytes) Client" where
  "registered_merchant = merchant\<lparr>certificate := Some (Some [0x01], Some [0x02])\<rparr>"

section \<open>Argument checks and credential registration\<close>





lemma AddCertFilePath_loader_fails:
  "checkCertFilePath ord c k p = None \<Longrightarrow> addCertConfig env w c k p = Returns (cfg, Some e) \<Longrightarrow>
     AddCertFilePath env ord w c k p = Returns (Some e, w)"
  by (cases cfg) (simp_all add: AddCertFilePath_def)

lemma checkEntry_None: "checkEntry n v = None \<longleftrightarrow> provided v"
  by (cases v) auto

lemma checkPkcs12_None: "checkPkcs12 v = None \<longleftrightarrow> provided v"
  by (cases v) auto




lemma rangeFiles_None:
  "rangeFiles (files ord c k) = None \<longleftrightarrow> provided c \<and> provided k"
proof -
  have "rangeFiles [(a, x), (b, y)] = None \<longleftrightarrow> provided x \<and> provided y" for a b x y
    by (cases "checkEntry a x"; cases "checkEntry b y")
       (simp_all flip: checkEntry_None [of a x] checkEntry_None [of b y])
  then show ?thesis
    by (cases ord) (auto simp: files_def)
qed

lemma checkCertFilePath_pem_pair:
  "c \<noteq> INil \<Longrightarrow> k \<noteq> INil \<Longrightarrow> checkCertFilePath ord c k p = rangeFiles (files ord c k)"
  by (simp add: checkCertFilePath_def)

lemma addCertConfig_pem_pair:
  "c \<noteq> INil \<Longrightarrow> k \<noteq> INil \<Longrightarrow> addCertConfig env w c k p = addCertConfig env w c k INil"
  by (simp add: addCertConfig_def loadCertConfig_def)

lemma checkCertFilePath_lone_pem:
  "p \<noteq> INil \<Longrightarrow> c = INil \<or> k = INil \<Longrightarrow> checkCertFilePath ord c k p = checkPkcs12 p"
  by (auto simp add: checkCertFilePath_def)

lemma addCertConfig_lone_pem:
  "p \<noteq> INil \<Longrightarrow> c = INil \<or> k = INil \<Longrightarrow>
     addCertConfig env w c k p = addCertConfig env w INil INil p"
  by (auto simp add: addCertConfig_def loadCertConfig_def)

lemma AddCertFilePath_same:
  assumes "checkCertFilePath ord c k p = checkCertFilePath ord c' k' p'"
    and "addCertConfig env w c k p = addCertConfig env w c' k' p'"
  shows "AddCertFilePath env ord w c k p = AddCertFilePath env ord w c' k' p'"
  unfolding AddCertFilePath_def assms ..

text \<open>
  C1 (as amended). The claim is that a PKCS#12 archive supplied together with a PEM
  certificate or a PEM key makes registration fail with a ConfigurationError. The code
  has no such check. When both the PEM certificate and the PEM key are present, the
  archive is ignored: \<^verbatim>\<open>checkCertFilePath\<close> and \<^verbatim>\<open>AddCertFilePath\<close> do what they do with the
  archive absent, and the check passes exactly when the certificate and the key are not
  empty. When the archive is present and the certificate or the key is absent, the PEM
  input that remains is ignored: both do what they do with the archive alone, and the
  check passes exactly when the archive is not empty.
\<close>

theorem pkcs12_with_pem_not_rejected:
  "(c \<noteq> INil \<and> k \<noteq> INil \<longrightarrow>
      checkCertFilePath ord c k p = checkCertFilePath ord c k INil \<and>
      AddCertFilePath env ord w c k p = AddCertFilePath env ord w c k INil \<and>
      (checkCertFilePath ord c k p = None \<longleftrightarrow> provided c \<and> provided k)) \<and>
   (p \<noteq> INil \<and> (c = INil \<or> k = INil) \<longrightarrow>
      checkCertFilePath ord c k p = checkCertFilePath ord INil INil p \<and>
      AddCertFilePath env ord w c k p = AddCertFilePath env ord w INil INil p \<and>
      (checkCertFilePath ord c k p = None \<longleftrightarrow> provided p))"
proof (intro conjI impI)
  assume pem: "c \<noteq> INil \<and> k \<noteq> INil"
  then show chk: "checkCertFilePath ord c k p = checkCertFilePath ord c k INil"
    by (simp add: checkCertFilePath_pem_pair)
  from pem have "addCertConfig env w c k p = addCertConfig env w c k INil"
    by (intro addCertConfig_pem_pair) blast+
  with chk show "AddCertFilePath env ord w c k p = AddCertFilePath env ord w c k INil"
    by (rule AddCertFilePath_same)
  from pem show "checkCertFilePath ord c k p = None \<longleftrightarrow> provided c \<and> provided k"
    by (simp add: checkCertFilePath_pem_pair rangeFiles_None)
next
  assume lone: "p \<noteq> INil \<and> (c = INil \<or> k = INil)"
  then show chk: "checkCertFilePath ord c k p = checkCertFilePath ord INil INil p"
    by (simp add: checkCertFilePath_lone_pem)
  from lone have "addCertConfig env w c k p = addCertConfig env w INil INil p"
    by (intro addCertConfig_lone_pem) blast+
  with chk show "AddCertFilePath env ord w c k p = AddCertFilePath env ord w INil INil p"
    by (rule AddCertFilePath_same)
  from lone show "checkCertFilePath ord c k p = None \<longleftrightarrow> provided p"
    by (simp add: checkCertFilePath_lone_pem checkPkcs12_None)
qed

theorem pkcs12_with_pem_not_rejected_witness:
  "(IString ''cert.pem'' \<noteq> INil \<and> IString ''key.pem'' \<noteq> INil) \<and>
   checkCertFilePath KeyFirst (IString ''cert.pem'') (IString ''key.pem'') (IString ''cert.p12'') =
     checkCertFilePath KeyFirst (IString ''cert.pem'') (IString ''key.pem'') INil \<and>
   AddCertFilePath disk_env KeyFirst merchant
       (IString ''cert.pem'') (IString ''key.pem'') (IString ''cert.p12'') =
     AddCertFilePath disk_env KeyFirst merchant (IString ''cert.pem'') (IString ''key.pem'') INil \<and>
   checkCertFilePath KeyFirst (IString ''cert.pem'') (IString ''key.pem'') (IString ''cert.p12'') =
     None \<and>
   IBytes (Some [0x03]) \<noteq> INil \<and>
   checkCertFilePath KeyFirst INil (IBytes (Some [0x02])) (IBytes (Some [0x03])) =
     checkCertFilePath KeyFirst INil INil (IBytes (Some [0x03])) \<and>
   AddCertFilePath disk_env KeyFirst merchant INil (IBytes (Some [0x02])) (IBytes (Some [0x03])) =
     AddCertFilePath disk_env KeyFirst merchant INil INil (IBytes (Some [0x03])) \<and>
   checkCertFilePath KeyFirst INil (IBytes (Some [0x02])) (IBytes (Some [0x03])) = None"
proof -
  have given: "provided (IString ''cert.pem'')" "provided (IString ''key.pem'')"
    "provided (IBytes (Some [0x03]))"
    by (simp_all add: NULL_def len_def)
  have pem: "IString ''cert.pem'' \<noteq> INil \<and> IString ''key.pem'' \<noteq> INil"
    by simp
  have lone: "IBytes (Some [0x03]) \<noteq> INil \<and> (INil = INil \<or> IBytes (Some [0x02]) = INil)"
    by simp
  note both = pkcs12_with_pem_not_rejected
    [where c = "IString ''cert.pem''" and k = "IString ''key.pem''"
       and p = "IString ''cert.p12''" and ord = KeyFirst and env = disk_env and w = merchant,
     THEN conjunct1, THEN mp, OF pem]
  note archive = pkcs12_with_pem_not_rejected
    [where c = INil and k = "IBytes (Some [0x02])"
       and p = "IBytes (Some [0x03])" and ord = KeyFirst and env = disk_env and w = merchant,
     THEN conjunct2, THEN mp, OF lone]
  from both archive given pem show ?thesis
    by blast
qed

theorem pkcs12_with_pem_registers:
  "checkCertFilePath CertFirst
     (IString ''cert.pem'') (IString ''key.pem'') (IString ''cert.p12'') = None \<and>
   AddCertFilePath disk_env CertFirst merchant
       (IString ''cert.pem'') (IString ''key.pem'') (IString ''cert.p12'') =
     Returns (None, merchant\<lparr>certificate := Some (Some [0x01], Some [0x02])\<rparr>) \<and>
   checkCertFilePath CertFirst (IString ''cert.pem'') INil (IString ''cert.p12'') = None \<and>
   AddCertFilePath disk_env CertFirst merchant
       (IString ''cert.pem'') INil (IString ''cert.p12'') =
     Returns (None, merchant\<lparr>certificate := Some (Some [0x04, 0x05], Some [0x04, 0x05])\<rparr>)"
  by code_simp




section \<open>The loader\<close>

lemma keyPairConfig_nil:
  "keyPairConfig env None keyPem =
     (None, Some (ErrorsNew ''cert files must all nil or all not nil''))"
  by (simp add: keyPairConfig_def)

lemma keyPairConfig_config:
  "keyPairConfig env certPem keyPem = (Some cfg, err) \<Longrightarrow>
     InsecureSkipVerify cfg \<and> err = None \<and> length (Certificates cfg) = 1"
  by (auto simp: keyPairConfig_def split: if_splits prod.splits option.splits)

lemma loadCertConfig_config:
  "loadCertConfig env w c k p = Returns (Some cfg, err) \<Longrightarrow>
     InsecureSkipVerify cfg \<and> err = None \<and> length (Certificates cfg) = 1"
  by (auto simp: loadCertConfig_def Let_def
           split: if_splits go_result.splits prod.splits option.splits
           dest!: keyPairConfig_config)

text \<open>
  C4 (as amended). The claim is that \<^verbatim>\<open>addCertConfig\<close>, called with all three inputs
  absent while no credential is cached, returns no credential and no error, and leaves
  the error to its callers. The code raises the error inside the loader: the call falls
  through to the last line of \<^verbatim>\<open>addCertConfig\<close> and returns no credential together with
  the error \<^verbatim>\<open>cert files must all nil or all not nil\<close>. \<^verbatim>\<open>checkCertFilePath\<close> accepts the
  three nil inputs, and \<^verbatim>\<open>AddCertFilePath\<close> returns the loader's error and leaves the
  client as it was.
\<close>

theorem all_nil_uncached:
  "certificate w = None \<Longrightarrow>
     checkCertFilePath ord INil INil INil = None \<and>
     addCertConfig env w INil INil INil =
       Returns (None, Some (ErrorsNew ''cert files must all nil or all not nil'')) \<and>
     AddCertFilePath env ord w INil INil INil =
       Returns (Some (ErrorsNew ''cert files must all nil or all not nil''), w)"
  by (simp add: checkCertFilePath_def addCertConfig_def loadCertConfig_def keyPairConfig_nil
        AddCertFilePath_def)

theorem all_nil_uncached_witness:
  "certificate merchant = None \<and>
   checkCertFilePath CertFirst INil INil INil = None \<and>
   addCertConfig disk_env merchant INil INil INil =
     Returns (None, Some (ErrorsNew ''cert files must all nil or all not nil'')) \<and>
   AddCertFilePath disk_env CertFirst merchant INil INil INil =
     Returns (Some (ErrorsNew ''cert files must all nil or all not nil''), merchant)"
proof -
  have uncached: "certificate merchant = None"
    by (simp add: merchant_def)
  from all_nil_uncached [OF uncached, of CertFirst disk_env] uncached show ?thesis
    by blast
qed

theorem all_nil_uncached_is_an_error:
  "certificate merchant = None \<and>
   addCertConfig disk_env merchant INil INil INil \<noteq> Returns (None, None) \<and>
   addCertConfig disk_env merchant INil INil INil =
     Returns (None, Some (ErrorsNew ''cert files must all nil or all not nil''))"
  by code_simp

text \<open>
  C9. Every TLS configuration \<^verbatim>\<open>addCertConfig\<close> returns has \<^verbatim>\<open>InsecureSkipVerify\<close> set to
  true, whether it was built from a PEM pair, from a PKCS#12 archive, or from the cached
  credential.
\<close>

theorem addCertConfig_InsecureSkipVerify:
  "addCertConfig env w c k p = Returns (Some cfg, err) \<Longrightarrow> InsecureSkipVerify cfg"
  by (auto simp: addCertConfig_def split: if_splits option.splits dest: loadCertConfig_config)

theorem addCertConfig_InsecureSkipVerify_witness:
  "(\<exists>cfg. addCertConfig disk_env merchant (IString ''cert.pem'') (IString ''key.pem'') INil =
            Returns (Some cfg, None) \<and>
          Certificates cfg = [(Some [0x01], Some [0x02])] \<and> InsecureSkipVerify cfg) \<and>
   (\<exists>cfg. addCertConfig disk_env merchant INil INil (IString ''cert.p12'') =
            Returns (Some cfg, None) \<and>
          Certificates cfg = [(Some [0x04, 0x05], Some [0x04, 0x05])] \<and>
          InsecureSkipVerify cfg) \<and>
   (\<exists>cfg. addCertConfig disk_env registered_merchant INil INil INil =
            Returns (Some cfg, None) \<and>
          Certificates cfg = [(Some [0x01], Some [0x02])] \<and> InsecureSkipVerify cfg)"
proof -
  have pem: "addCertConfig disk_env merchant (IString ''cert.pem'') (IString ''key.pem'') INil =
     Returns (Some \<lparr>Certificates = [(Some [0x01], Some [0x02])], InsecureSkipVerify = True\<rparr>,
              None)"
    by code_simp
  have pfx: "addCertConfig disk_env merchant INil INil (IString ''cert.p12'') =
     Returns (Some \<lparr>Certificates = [(Some [0x04, 0x05], Some [0x04, 0x05])],
                     InsecureSkipVerify = True\<rparr>, None)"
    by code_simp
  have cached: "addCertConfig disk_env registered_merchant INil INil INil =
     Returns (Some \<lparr>Certificates = [(Some [0x01], Some [0x02])], InsecureSkipVerify = True\<rparr>,
              None)"
    by code_simp
  show ?thesis
  proof (intro conjI)
    from addCertConfig_InsecureSkipVerify [OF pem] pem
    show "\<exists>cfg. addCertConfig disk_env merchant (IString ''cert.pem'') (IString ''key.pem'') INil =
            Returns (Some cfg, None) \<and>
          Certificates cfg = [(Some [0x01], Some [0x02])] \<and> InsecureSkipVerify cfg"
      by (intro exI conjI) (assumption, simp, assumption)
    from addCertConfig_InsecureSkipVerify [OF pfx] pfx
    show "\<exists>cfg. addCertConfig disk_env merchant INil INil (IString ''cert.p12'') =
            Returns (Some cfg, None) \<and>
          Certificates cfg = [(Some [0x04, 0x05], Some [0x04, 0x05])] \<and>
          InsecureSkipVerify cfg"
      by (intro exI conjI) (assumption, simp, assumption)
    from addCertConfig_InsecureSkipVerify [OF cached] cached
    show "\<exists>cfg. addCertConfig disk_env registered_merchant INil INil INil =
            Returns (Some cfg, None) \<and>
          Certificates cfg = [(Some [0x01], Some [0x02])] \<and> InsecureSkipVerify cfg"
      by (intro exI conjI) (assumption, simp, assumption)
  qed
qed

text \<open>
  C2 (the code at the failing input). The certificate path cannot be read and the key path
  can: the second read assigns \<^verbatim>\<open>err\<close> anew, the error of the first read is lost, and
  the call ends on the last line of \<^verbatim>\<open>addCertConfig\<close> with an error that is no IOError
  and wraps nothing.
\<close>

theorem cert_read_error_lost:
  "ReadFile cert_missing_env ''cert.pem'' = (None, Some (missing_file ''cert.pem'')) \<and>
   ReadFile cert_missing_env ''key.pem'' = (Some [0x02], None) \<and>
   checkCertFilePath CertFirst (IString ''cert.pem'') (IString ''key.pem'') INil = None \<and>
   AddCertFilePath cert_missing_env CertFirst merchant
       (IString ''cert.pem'') (IString ''key.pem'') INil =
     Returns (Some (ErrorsNew ''cert files must all nil or all not nil''), merchant) \<and>
   isIOError (ErrorsNew ''cert files must all nil or all not nil'') = False \<and>
   Unwrap (ErrorsNew ''cert files must all nil or all not nil'') = None"
  by code_simp

text \<open>
  Where the read error is kept: the key is read from a path and that read fails, or the
  certificate is read from a path, that read fails, and the key is given as bytes.
\<close>

lemma key_read_error_wrapped:
  assumes "readPemInput env c None = Returns (certPem, err)"
    and "ReadFile env keyPath = (keyPem, Some e)"
  shows "addCertConfig env w c (IString keyPath) p =
           Returns (None, Some (ErrorfW (''ioutil.ReadFile'' @ fullwidth_colon) e))"
proof -
  from assms(1) have "c \<noteq> INil"
    by (auto simp: readPemInput_def)
  with assms show ?thesis
    by (simp add: addCertConfig_def loadCertConfig_def readPemInput_def)
qed

lemma cert_read_error_wrapped:
  assumes "ReadFile env certPath = (certPem, Some e)"
  shows "addCertConfig env w (IString certPath) (IBytes keyPem) p =
           Returns (None, Some (ErrorfW (''ioutil.ReadFile'' @ fullwidth_colon) e))"
  using assms by (simp add: addCertConfig_def loadCertConfig_def readPemInput_def)

lemma cert_read_error_overwritten:
  assumes "ReadFile env certPath = (None, Some e)"
    and "ReadFile env keyPath = (keyPem, None)"
  shows "addCertConfig env w (IString certPath) (IString keyPath) p =
           Returns (None, Some (ErrorsNew ''cert files must all nil or all not nil''))"
  using assms
  by (simp add: addCertConfig_def loadCertConfig_def readPemInput_def keyPairConfig_nil)

text \<open>
  The read errors that do reach the caller, as the IOError of the specification: the
  error of reading the key path, whatever the certificate was, and the error of reading
  the certificate path when the key is given as bytes. \<^verbatim>\<open>AddCertFilePath\<close> returns the
  wrapper and leaves the client as it was.
\<close>

theorem read_error_is_IOError:
  assumes "checkCertFilePath ord c k p = None"
    and "(\<exists>keyPath keyPem certPem err.
            k = IString keyPath \<and> ReadFile env keyPath = (keyPem, Some e) \<and>
            readPemInput env c None = Returns (certPem, err)) \<or>
         (\<exists>certPath certPem keyPem.
            c = IString certPath \<and> ReadFile env certPath = (certPem, Some e) \<and>
            k = IBytes keyPem)"
  shows "\<exists>e'. AddCertFilePath env ord w c k p = Returns (Some e', w) \<and>
              isIOError e' \<and> Unwrap e' = Some e"
proof -
  from assms(2)
  have "addCertConfig env w c k p =
          Returns (None, Some (ErrorfW (''ioutil.ReadFile'' @ fullwidth_colon) e))"
    by (auto simp: key_read_error_wrapped cert_read_error_wrapped)
  with assms(1)
  have "AddCertFilePath env ord w c k p =
          Returns (Some (ErrorfW (''ioutil.ReadFile'' @ fullwidth_colon) e), w)"
    by (rule AddCertFilePath_loader_fails)
  then show ?thesis
    by simp
qed

theorem read_error_is_IOError_witness:
  "checkCertFilePath CertFirst (IString ''cert.pem'') (IString ''lost.pem'') INil = None \<and>
   ReadFile disk_env ''lost.pem'' = (None, Some (missing_file ''lost.pem'')) \<and>
   (\<exists>e'. AddCertFilePath disk_env CertFirst merchant
            (IString ''cert.pem'') (IString ''lost.pem'') INil = Returns (Some e', merchant) \<and>
         isIOError e' \<and> Unwrap e' = Some (missing_file ''lost.pem''))"
proof -
  have check: "checkCertFilePath CertFirst (IString ''cert.pem'') (IString ''lost.pem'') INil = None"
    by code_simp
  have lost: "ReadFile disk_env ''lost.pem'' = (None, Some (missing_file ''lost.pem''))"
    by code_simp
  have cert: "readPemInput disk_env (IString ''cert.pem'') None = Returns (Some [0x01], None)"
    by code_simp
  from lost cert
  have reads: "(\<exists>keyPath keyPem certPem err.
            IString ''lost.pem'' = IString keyPath \<and>
            ReadFile disk_env keyPath = (keyPem, Some (missing_file ''lost.pem'')) \<and>
            readPemInput disk_env (IString ''cert.pem'') None = Returns (certPem, err)) \<or>
         (\<exists>certPath certPem keyPem.
            IString ''cert.pem'' = IString certPath \<and>
            ReadFile disk_env certPath = (certPem, Some (missing_file ''lost.pem'')) \<and>
            IString ''lost.pem'' = IBytes keyPem)"
    by blast
  from read_error_is_IOError [OF check reads, of merchant] check lost show ?thesis
    by blast
qed

section \<open>The signature engine\<close>

lemma SignType_distinct: "SignType_MD5 \<noteq> SignType_HMAC_SHA256"
  by (simp add: SignType_MD5_def SignType_HMAC_SHA256_def)

lemma getReleaseSign_md5:
  "signType \<noteq> SignType_HMAC_SHA256 \<Longrightarrow>
     getReleaseSign env apiKey signType bm =
       ToUpper (EncodeToString (md5_Sum env (EncodeWeChatSignParams env bm apiKey)))"
  by (simp add: getReleaseSign_def releaseHash_def hash_Sum_def)

lemma getReleaseSign_hmac:
  "getReleaseSign env apiKey SignType_HMAC_SHA256 bm =
     ToUpper (EncodeToString
       (hmac_sha256_Sum env apiKey (EncodeWeChatSignParams env bm apiKey)))"
  by (simp add: getReleaseSign_def releaseHash_def hash_Sum_def)

text \<open>
  C3 (as amended). The claim is that \<^verbatim>\<open>getReleaseSign\<close> uses exactly the selected
  algorithm, accepts no other choice and never falls back. The code uses HMAC-SHA256,
  keyed with the API key, when \<^verbatim>\<open>signType\<close> is \<^verbatim>\<open>SignType_HMAC_SHA256\<close>, and MD5 for every
  other value of \<^verbatim>\<open>signType\<close>: a value that is neither of the two names is not refused,
  it gives the signature that \<^verbatim>\<open>SignType_MD5\<close> gives.
\<close>

theorem getReleaseSign_algorithm:
  "releaseHash apiKey SignType_HMAC_SHA256 = HmacSha256 apiKey \<and>
   getReleaseSign env apiKey SignType_HMAC_SHA256 bm =
     ToUpper (EncodeToString
       (hmac_sha256_Sum env apiKey (EncodeWeChatSignParams env bm apiKey))) \<and>
   (signType \<noteq> SignType_HMAC_SHA256 \<longrightarrow>
      releaseHash apiKey signType = Md5 \<and>
      getReleaseSign env apiKey signType bm =
        ToUpper (EncodeToString (md5_Sum env (EncodeWeChatSignParams env bm apiKey))) \<and>
      getReleaseSign env apiKey signType bm = getReleaseSign env apiKey SignType_MD5 bm)"
proof (intro conjI impI)
  show "releaseHash apiKey SignType_HMAC_SHA256 = HmacSha256 apiKey"
    by (simp add: releaseHash_def)
  show "getReleaseSign env apiKey SignType_HMAC_SHA256 bm =
     ToUpper (EncodeToString
       (hmac_sha256_Sum env apiKey (EncodeWeChatSignParams env bm apiKey)))"
    by (rule getReleaseSign_hmac)
next
  assume other: "signType \<noteq> SignType_HMAC_SHA256"
  then show "releaseHash apiKey signType = Md5"
    by (simp add: releaseHash_def)
  from other show md5: "getReleaseSign env apiKey signType bm =
        ToUpper (EncodeToString (md5_Sum env (EncodeWeChatSignParams env bm apiKey)))"
    by (rule getReleaseSign_md5)
  show "getReleaseSign env apiKey signType bm = getReleaseSign env apiKey SignType_MD5 bm"
    unfolding md5 getReleaseSign_md5 [OF SignType_distinct] ..
qed

theorem getReleaseSign_algorithm_witness:
  "''SHA1'' \<noteq> SignType_HMAC_SHA256 \<and>
   releaseHash ''apikey'' ''SHA1'' = Md5 \<and>
   getReleaseSign wire_env ''apikey'' ''SHA1'' (keyParams ''1900000109'' ''nonce'') =
     ToUpper (EncodeToString
       (md5_Sum wire_env
          (EncodeWeChatSignParams wire_env (keyParams ''1900000109'' ''nonce'') ''apikey''))) \<and>
   getReleaseSign wire_env ''apikey'' ''SHA1'' (keyParams ''1900000109'' ''nonce'') =
     getReleaseSign wire_env ''apikey'' SignType_MD5 (keyParams ''1900000109'' ''nonce'')"
proof -
  have other: "''SHA1'' \<noteq> SignType_HMAC_SHA256"
    by (simp add: SignType_HMAC_SHA256_def)
  from getReleaseSign_algorithm [of "''apikey''" wire_env "keyParams ''1900000109'' ''nonce''"
         "''SHA1''"] other
  show ?thesis by blast
qed

theorem unknown_signType_falls_back_to_md5:
  "''SHA1'' \<noteq> SignType_MD5 \<and> ''SHA1'' \<noteq> SignType_HMAC_SHA256 \<and>
   getReleaseSign wire_env ''apikey'' ''SHA1'' (keyParams ''1900000109'' ''nonce'') = ''4D1F'' \<and>
   ToUpper (EncodeToString
     (md5_Sum wire_env
        (EncodeWeChatSignParams wire_env (keyParams ''1900000109'' ''nonce'') ''apikey''))) =
     ''4D1F'' \<and>
   getReleaseSign wire_env ''apikey'' SignType_HMAC_SHA256 (keyParams ''1900000109'' ''nonce'') =
     ''482E''"
  by code_simp

section \<open>The sandbox key exchange\<close>

lemma getSanBoxSignKey_eq:
  "getSanBoxSignKey env net mchId nonceStr sign =
     (keyResult (EndStruct env net (sandboxGetSignKey env)
                   (generateXml env (keyRequest mchId nonceStr sign))),
      net @ [(sandboxGetSignKey env, generateXml env (keyRequest mchId nonceStr sign))])"
  by (simp add: getSanBoxSignKey_def Let_def)

lemma keyResult_errs: "errs \<noteq> [] \<Longrightarrow> keyResult (errs, resp) = (NULL, Some (hd errs))"
  by (cases errs) (simp_all add: keyResult_def)

lemma keyResult_FAIL:
  "ReturnCode resp = ''FAIL'' \<Longrightarrow>
     keyResult ([], resp) = (NULL, Some (ErrorsNew (ReturnMsg resp)))"
  by (simp add: keyResult_def)

lemma keyResult_other:
  "ReturnCode resp \<noteq> ''FAIL'' \<Longrightarrow> keyResult ([], resp) = (SandboxSignkey resp, None)"
  by (simp add: keyResult_def)



lemma getSignBoxSign_error:
  "snd (fst (getSanBoxKey env net mchId (GetRandomString env 32) apiKey SignType_MD5)) = Some e \<Longrightarrow>
     fst (getSignBoxSign env net mchId apiKey bm) = ([], Some e)"
  by (auto simp: getSignBoxSign_def split: prod.splits option.splits)

text \<open>
  C5. \<^verbatim>\<open>getSanBoxSignKey\<close> on the transport's answer to its one request: a response with
  \<^verbatim>\<open>return_code\<close> FAIL gives an error whose message is \<^verbatim>\<open>return_msg\<close>; any other
  response, so one that carries a key, gives \<^verbatim>\<open>sandbox_signkey\<close> unchanged and no error;
  a transport error is returned as it is (the first of the list). In every case exactly
  one request has been sent: nothing is retried.
\<close>

theorem getSanBoxSignKey_outcomes:
  assumes "EndStruct env net (sandboxGetSignKey env)
             (generateXml env (keyRequest mchId nonceStr sign)) = (errs, resp)"
  shows "(errs = [] \<and> ReturnCode resp = ''FAIL'' \<longrightarrow>
            (\<exists>e. fst (getSanBoxSignKey env net mchId nonceStr sign) = (NULL, Some e) \<and>
                 Error e = ReturnMsg resp)) \<and>
         (errs = [] \<and> ReturnCode resp \<noteq> ''FAIL'' \<longrightarrow>
            fst (getSanBoxSignKey env net mchId nonceStr sign) = (SandboxSignkey resp, None)) \<and>
         (errs \<noteq> [] \<longrightarrow>
            fst (getSanBoxSignKey env net mchId nonceStr sign) = (NULL, Some (hd errs))) \<and>
         snd (getSanBoxSignKey env net mchId nonceStr sign) =
           net @ [(sandboxGetSignKey env, generateXml env (keyRequest mchId nonceStr sign))]"
  using assms
  by (simp add: getSanBoxSignKey_eq keyResult_errs keyResult_FAIL keyResult_other)

theorem getSanBoxSignKey_outcomes_witness:
  "(\<exists>e. fst (getSanBoxSignKey provider_fails_env [] ''1900000109'' ''nonce'' ''SIGN'') =
          (NULL, Some e) \<and>
        Error e = ''invalid mch_id'') \<and>
   fst (getSanBoxSignKey wire_env [] ''1900000109'' ''nonce'' ''SIGN'') =
     (''sandboxkey'', None) \<and>
   fst (getSanBoxSignKey transport_fails_env [] ''1900000109'' ''nonce'' ''SIGN'') =
     (NULL, Some (ErrorsNew ''dial tcp: i/o timeout'')) \<and>
   snd (getSanBoxSignKey transport_fails_env [] ''1900000109'' ''nonce'' ''SIGN'') =
     [(''https://sandbox/getsignkey'', ''mch_id=1900000109&nonce_str=nonce&sign=SIGN&'')]"
proof -
  have fail: "EndStruct provider_fails_env [] (sandboxGetSignKey provider_fails_env)
      (generateXml provider_fails_env (keyRequest ''1900000109'' ''nonce'' ''SIGN'')) =
    ([], \<lparr>ReturnCode = ''FAIL'', ReturnMsg = ''invalid mch_id'', SandboxSignkey = []\<rparr>)"
    by (simp add: provider_fails_env_def answer_with_def)
  have key: "EndStruct wire_env [] (sandboxGetSignKey wire_env)
      (generateXml wire_env (keyRequest ''1900000109'' ''nonce'' ''SIGN'')) =
    ([], \<lparr>ReturnCode = ''SUCCESS'', ReturnMsg = ''ok'', SandboxSignkey = ''sandboxkey''\<rparr>)"
    by (simp add: wire_env_def answer_key_def)
  have down: "EndStruct transport_fails_env [] (sandboxGetSignKey transport_fails_env)
      (generateXml transport_fails_env (keyRequest ''1900000109'' ''nonce'' ''SIGN'')) =
    ([ErrorsNew ''dial tcp: i/o timeout''],
     \<lparr>ReturnCode = [], ReturnMsg = [], SandboxSignkey = []\<rparr>)"
    by (simp add: transport_fails_env_def answer_with_def)
  have body: "generateXml transport_fails_env (keyRequest ''1900000109'' ''nonce'' ''SIGN'') =
      ''mch_id=1900000109&nonce_str=nonce&sign=SIGN&''"
    "sandboxGetSignKey transport_fails_env = ''https://sandbox/getsignkey''"
    by code_simp+
  from getSanBoxSignKey_outcomes [OF fail] getSanBoxSignKey_outcomes [OF key]
       getSanBoxSignKey_outcomes [OF down] body
  show ?thesis by simp
qed

text \<open>
  C10. When the transport reports no error, \<^verbatim>\<open>getSanBoxSignKey\<close> returns an error exactly
  when \<^verbatim>\<open>return_code\<close> is the string FAIL; for every other value, the empty string
  included, it returns \<^verbatim>\<open>sandbox_signkey\<close> as it is, empty or not, and no error.
\<close>

theorem only_FAIL_is_failure:
  assumes "EndStruct env net (sandboxGetSignKey env)
             (generateXml env (keyRequest mchId nonceStr sign)) = ([], resp)"
  shows "(snd (fst (getSanBoxSignKey env net mchId nonceStr sign)) \<noteq> None \<longleftrightarrow>
            ReturnCode resp = ''FAIL'') \<and>
         (ReturnCode resp \<noteq> ''FAIL'' \<longrightarrow>
            fst (getSanBoxSignKey env net mchId nonceStr sign) = (SandboxSignkey resp, None))"
  using assms
  by (cases "ReturnCode resp = ''FAIL''")
     (simp_all add: getSanBoxSignKey_eq keyResult_FAIL keyResult_other)

theorem only_FAIL_is_failure_witness:
  "EndStruct blank_answer_env [] (sandboxGetSignKey blank_answer_env)
      (generateXml blank_answer_env (keyRequest ''1900000109'' ''nonce'' ''SIGN'')) =
    ([], \<lparr>ReturnCode = [], ReturnMsg = [], SandboxSignkey = []\<rparr>) \<and>
   snd (fst (getSanBoxSignKey blank_answer_env [] ''1900000109'' ''nonce'' ''SIGN'')) = None \<and>
   fst (getSanBoxSignKey blank_answer_env [] ''1900000109'' ''nonce'' ''SIGN'') = ([], None)"
proof -
  have blank: "EndStruct blank_answer_env [] (sandboxGetSignKey blank_answer_env)
      (generateXml blank_answer_env (keyRequest ''1900000109'' ''nonce'' ''SIGN'')) =
    ([], \<lparr>ReturnCode = [], ReturnMsg = [], SandboxSignkey = []\<rparr>)"
    by (simp add: blank_answer_env_def answer_with_def)
  from only_FAIL_is_failure [OF blank] blank show ?thesis
    by simp
qed


section \<open>An error that does not reach the caller\<close>

text \<open>
  C8 (the code at the failing input). The claim is that no error arising inside this core
  is swallowed. In \<^verbatim>\<open>addCertConfig\<close> the read of the certificate path fails and returns
  its error; the read of the key path then takes that error in \<^verbatim>\<open>err\<close> and gives back
  nil in its place; the error the caller receives is a different one, which neither is
  the read error nor wraps it, and whose message does not name the file.
\<close>

theorem read_error_swallowed:
  "readPemInput cert_missing_env (IString ''cert.pem'') None =
     Returns (None, Some (missing_file ''cert.pem'')) \<and>
   readPemInput cert_missing_env (IString ''key.pem'') (Some (missing_file ''cert.pem'')) =
     Returns (Some [0x02], None) \<and>
   addCertConfig cert_missing_env merchant (IString ''cert.pem'') (IString ''key.pem'') INil =
     Returns (None, Some (ErrorsNew ''cert files must all nil or all not nil'')) \<and>
   ErrorsNew ''cert files must all nil or all not nil'' \<noteq> missing_file ''cert.pem'' \<and>
   Unwrap (ErrorsNew ''cert files must all nil or all not nil'') \<noteq>
     Some (missing_file ''cert.pem'') \<and>
   Error (ErrorsNew ''cert files must all nil or all not nil'') =
     ''cert files must all nil or all not nil''"
  by code_simp

end
